theory Spec2Isabelle
  imports Complex_Main
begin

section \<open>Python values\<close>

text \<open>
  The program is a Flask handler \<^verbatim>\<open>check\<close> over three source adapters
  (\<^verbatim>\<open>get_traffic_penalties\<close>, \<^verbatim>\<open>get_parking_fees\<close>, \<^verbatim>\<open>get_insurance\<close>).
  All of its data are loosely typed JSON values and Python dicts, so the model keeps one
  type of values. A dict is an association list read with \<open>map_of\<close> (one binding per
  key, as in the parsed dict). A Python \<^verbatim>\<open>float\<close> is idealised as an exact rational:
  the rounding of IEEE arithmetic and the non-finite values are not part of the model.
  A \<^verbatim>\<open>str\<close> is the list of its UTF-8 bytes.
\<close>

datatype json =
    JNull
  | JBool bool
  | JInt int
  | JFloat rat
  | JStr string
  | JArr "json list"
  | JObj "(string \<times> json) list"

text \<open>Exceptions carry the text that \<^verbatim>\<open>str(e)\<close> returns.\<close>

datatype exn =
    AttributeError string
  | TypeError string
  | ValueError string
  | KeyError string
  | IndexError string
  | OverflowError string
  | OSError string
  | UpstreamError string

fun str_exn :: "exn \<Rightarrow> string" where
  "str_exn (AttributeError m) = m"
| "str_exn (TypeError m) = m"
| "str_exn (ValueError m) = m"
| "str_exn (KeyError m) = m"
| "str_exn (IndexError m) = m"
| "str_exn (OverflowError m) = m"
| "str_exn (OSError m) = m"
| "str_exn (UpstreamError m) = m"

text \<open>Sequencing of statements that may raise: the first exception ends the block.\<close>

definition and_then :: "exn + 'a \<Rightarrow> ('a \<Rightarrow> exn + 'b) \<Rightarrow> exn + 'b" where
  "and_then m f = (case m of Inl e \<Rightarrow> Inl e | Inr x \<Rightarrow> f x)"

text \<open>Truth value of an object, as \<^verbatim>\<open>if x\<close> and \<^verbatim>\<open>x and y\<close> test it.\<close>

fun truthy :: "json \<Rightarrow> bool" where
  "truthy JNull = False"
| "truthy (JBool b) = b"
| "truthy (JInt i) = (i \<noteq> 0)"
| "truthy (JFloat r) = (r \<noteq> 0)"
| "truthy (JStr s) = (s \<noteq> [])"
| "truthy (JArr xs) = (xs \<noteq> [])"
| "truthy (JObj kvs) = (kvs \<noteq> [])"

text \<open>\<^verbatim>\<open>isinstance(x, dict)\<close>\<close>

fun is_dict :: "json \<Rightarrow> bool" where
  "is_dict (JObj kvs) = True"
| "is_dict _ = False"

text \<open>\<^verbatim>\<open>d.get(k, default)\<close>: only a dict has the method.\<close>

fun dict_get :: "json \<Rightarrow> string \<Rightarrow> json \<Rightarrow> exn + json" where
  "dict_get (JObj kvs) k d = Inr (case map_of kvs k of None \<Rightarrow> d | Some v \<Rightarrow> v)"
| "dict_get _ k d = Inl (AttributeError ''object has no attribute get'')"

text \<open>\<^verbatim>\<open>d[k]\<close> with a string key.\<close>

fun subscript :: "json \<Rightarrow> string \<Rightarrow> exn + json" where
  "subscript (JObj kvs) k = (case map_of kvs k of None \<Rightarrow> Inl (KeyError k) | Some v \<Rightarrow> Inr v)"
| "subscript (JArr xs) k = Inl (TypeError ''list indices must be integers or slices, not str'')"
| "subscript (JStr s) k = Inl (TypeError ''string indices must be integers, not str'')"
| "subscript _ k = Inl (TypeError ''object is not subscriptable'')"

text \<open>\<^verbatim>\<open>x[0]\<close>\<close>

fun first_item :: "json \<Rightarrow> exn + json" where
  "first_item (JArr []) = Inl (IndexError ''list index out of range'')"
| "first_item (JArr (x # xs)) = Inr x"
| "first_item (JStr []) = Inl (IndexError ''string index out of range'')"
| "first_item (JStr (c # cs)) = Inr (JStr [c])"
| "first_item (JObj kvs) = Inl (KeyError ''0'')"
| "first_item _ = Inl (TypeError ''object is not subscriptable'')"

text \<open>
  \<^verbatim>\<open>for x in v\<close> over a value that passed a truth test. Only a list gives elements
  that the loops of the program go on with; the characters of a string and the keys of a
  dict are strings.
\<close>

fun iterate :: "json \<Rightarrow> exn + json list" where
  "iterate (JArr xs) = Inr xs"
| "iterate (JStr s) = Inr (map (\<lambda>c. JStr [c]) s)"
| "iterate (JObj kvs) = Inr (map (\<lambda>kv. JStr (fst kv)) kvs)"
| "iterate _ = Inl (TypeError ''object is not iterable'')"

text \<open>
  \<^verbatim>\<open>float(x)\<close>. The parser of numeric strings is the interpreter's and is taken as a
  parameter: it gives \<open>None\<close> where \<^verbatim>\<open>float\<close> raises \<^verbatim>\<open>ValueError\<close>.
\<close>

fun py_float :: "(string \<Rightarrow> rat option) \<Rightarrow> json \<Rightarrow> exn + rat" where
  "py_float parse (JInt i) = Inr (of_int i)"
| "py_float parse (JFloat r) = Inr r"
| "py_float parse (JBool b) = Inr (if b then 1 else 0)"
| "py_float parse (JStr s) =
     (case parse s of None \<Rightarrow> Inl (ValueError ''could not convert string to float'')
      | Some r \<Rightarrow> Inr r)"
| "py_float parse _ = Inl (TypeError ''float() argument must be a string or a real number'')"

text \<open>\<^verbatim>\<open>int(x)\<close> of a float truncates towards zero.\<close>

definition int_of_float :: "rat \<Rightarrow> int" where
  "int_of_float r = (if 0 \<le> r then \<lfloor>r\<rfloor> else \<lceil>r\<rceil>)"

text \<open>\<^verbatim>\<open>s.upper()\<close> and \<^verbatim>\<open>s.lower()\<close>, on the ASCII letters; other bytes are kept.\<close>

definition upper_char :: "char \<Rightarrow> char" where
  "upper_char c =
     (let n = (of_char c :: nat) in if 97 \<le> n \<and> n \<le> 122 then char_of (n - 32) else c)"

definition lower_char :: "char \<Rightarrow> char" where
  "lower_char c =
     (let n = (of_char c :: nat) in if 65 \<le> n \<and> n \<le> 90 then char_of (n + 32) else c)"

definition upper :: "string \<Rightarrow> string" where
  "upper s = map upper_char s"

definition lower :: "string \<Rightarrow> string" where
  "lower s = map lower_char s"

section \<open>The world outside the process\<close>

text \<open>
  What the three services answer, the clock and the audit log are inputs of the
  program. \<open>tms_post\<close> is \<^verbatim>\<open>requests.post\<close> to the traffic service followed by
  \<^verbatim>\<open>raise_for_status\<close> and \<^verbatim>\<open>res.json()\<close>; \<open>gepg_post\<close> is the post to the
  parking service followed by \<^verbatim>\<open>res.json()\<close>; \<open>tira_post\<close> is the post to the
  insurance service followed by \<^verbatim>\<open>ET.fromstring(res.text)\<close>. Each is a function of
  the plate sent, and is \<open>Inl\<close> where the call raises (timeout, HTTP status, malformed
  body). \<open>now\<close> is the naive local \<^verbatim>\<open>datetime.now()\<close> in microseconds since
  1970-01-01T00:00:00, \<open>localtime\<close> turns a POSIX time in microseconds into such a
  naive local time, and \<open>strftime_ymd\<close> is \<^verbatim>\<open>strftime('%Y-%m-%d')\<close> of the C library.
  \<open>float_of_str\<close> is \<^verbatim>\<open>float\<close> on a string and \<open>py_repr\<close> is \<^verbatim>\<open>str\<close> on a value that
  is not an \<^verbatim>\<open>int\<close>, both the interpreter's.
  \<open>log_writable\<close> says whether \<^verbatim>\<open>open(LOG_FILE, "a")\<close> and the write succeed; the
  line appended is not modelled, since no result depends on it.
\<close>

datatype xml = Element (elem_tag: string) (elem_text: "string option") (elem_children: "xml list")

record world =
  tms_post :: "string \<Rightarrow> exn + json"
  gepg_post :: "string \<Rightarrow> exn + json"
  tira_post :: "string \<Rightarrow> exn + xml"
  float_of_str :: "string \<Rightarrow> rat option"
  now :: int
  localtime :: "int \<Rightarrow> int"
  strftime_ymd :: "int \<Rightarrow> string"
  py_repr :: "json \<Rightarrow> string"
  log_writable :: bool

definition log_alert :: "world \<Rightarrow> exn + unit" where
  "log_alert w = (if log_writable w then Inr () else Inl (OSError ''cannot write log.txt''))"

text \<open>\<^verbatim>\<open>except Exception as e: return {"error": str(e)}\<close>\<close>

definition error_result :: "exn \<Rightarrow> json" where
  "error_result e = JObj [(''error'', JStr (str_exn e))]"

definition catch_all :: "exn + json \<Rightarrow> json" where
  "catch_all m = (case m of Inl e \<Rightarrow> error_result e | Inr r \<Rightarrow> r)"

definition not_found :: json where
  "not_found = JObj [(''found'', JBool False)]"

section \<open>Traffic penalties\<close>

text \<open>
  \<^verbatim>\<open>int(float(t.get("charge", 0)) + float(t.get("penalty", 0)))\<close> for one ticket.
\<close>

definition ticket_amount :: "world \<Rightarrow> json \<Rightarrow> exn + int" where
  "ticket_amount w t =
     and_then (dict_get t ''charge'' (JInt 0)) (\<lambda>c.
     and_then (py_float (float_of_str w) c) (\<lambda>cf.
     and_then (dict_get t ''penalty'' (JInt 0)) (\<lambda>p.
     and_then (py_float (float_of_str w) p) (\<lambda>pf.
     Inr (int_of_float (cf + pf))))))"

text \<open>\<^verbatim>\<open>sum(... for t in tickets)\<close>: the running total starts at 0.\<close>

fun sum_tickets :: "world \<Rightarrow> json list \<Rightarrow> int \<Rightarrow> exn + int" where
  "sum_tickets w [] acc = Inr acc"
| "sum_tickets w (t # ts) acc =
     and_then (ticket_amount w t) (\<lambda>a. sum_tickets w ts (acc + a))"

definition traffic_body :: "world \<Rightarrow> string \<Rightarrow> exn + json" where
  "traffic_body w plate =
     and_then (tms_post w plate) (\<lambda>data.
     and_then (dict_get data ''status'' JNull) (\<lambda>status.
     if status = JStr ''success'' then
       and_then (dict_get data ''pending_transactions'' JNull) (\<lambda>pending.
       if truthy pending then
         and_then (subscript data ''pending_transactions'') (\<lambda>tickets.
         and_then (iterate tickets) (\<lambda>ts.
         and_then (sum_tickets w ts 0) (\<lambda>total.
         and_then (log_alert w) (\<lambda>_.
         Inr (JObj [(''found'', JBool True), (''tickets'', tickets),
                    (''total'', JInt total)])))))
       else Inr not_found)
     else Inr not_found))"

definition get_traffic_penalties :: "world \<Rightarrow> string \<Rightarrow> json" where
  "get_traffic_penalties w plate = catch_all (traffic_body w plate)"

section \<open>Parking fees\<close>

text \<open>\<^verbatim>\<open>[float(b["billAmount"]) for b in bills]\<close>\<close>

fun bill_amounts :: "world \<Rightarrow> json list \<Rightarrow> exn + rat list" where
  "bill_amounts w [] = Inr []"
| "bill_amounts w (b # bs) =
     and_then (subscript b ''billAmount'') (\<lambda>v.
     and_then (py_float (float_of_str w) v) (\<lambda>a.
     and_then (bill_amounts w bs) (\<lambda>as. Inr (a # as))))"

definition parking_body :: "world \<Rightarrow> string \<Rightarrow> exn + json" where
  "parking_body w plate =
     and_then (gepg_post w (upper plate)) (\<lambda>resp.
     and_then (first_item resp) (\<lambda>first.
     and_then (dict_get first ''billDetails'' (JArr [])) (\<lambda>bills.
     if truthy bills then
       and_then (iterate bills) (\<lambda>bs.
       and_then (bill_amounts w bs) (\<lambda>amounts.
       let total = foldl (+) 0 amounts in
       and_then (log_alert w) (\<lambda>_.
       Inr (JObj [(''found'', JBool True), (''bills'', bills),
                  (''total'', JInt (int_of_float total))]))))
     else Inr not_found)))"

definition get_parking_fees :: "world \<Rightarrow> string \<Rightarrow> json" where
  "get_parking_fees w plate = catch_all (parking_body w plate)"

section \<open>Insurance\<close>

text \<open>
  \<^verbatim>\<open>xml_root.findall(".//data")\<close>: the elements below the root whose tag is
  \<^verbatim>\<open>data\<close>, in document order.
\<close>

fun descendants :: "xml \<Rightarrow> xml list" where
  "descendants (Element t x cs) = concat (map (\<lambda>c. c # descendants c) cs)"

definition findall_data :: "xml \<Rightarrow> xml list" where
  "findall_data xml_root = filter (\<lambda>e. elem_tag e = ''data'') (descendants xml_root)"

text \<open>
  \<^verbatim>\<open>e.findtext(tag, default)\<close>: the text of the first child with that tag, the empty
  string when that child has no text, the default when there is no such child.
\<close>

definition findtext :: "xml \<Rightarrow> string \<Rightarrow> string \<Rightarrow> string" where
  "findtext e path dflt =
     (case find (\<lambda>c. elem_tag c = path) (elem_children e) of
        None \<Rightarrow> dflt
      | Some c \<Rightarrow> (case elem_text c of None \<Rightarrow> [] | Some s \<Rightarrow> s))"

text \<open>
  \<^verbatim>\<open>int(s)\<close> of a string: surrounding whitespace is dropped, then an optional sign and
  decimal digits, where single underscores may separate digits. ASCII only.
\<close>

definition is_space :: "char \<Rightarrow> bool" where
  "is_space c = (let n = (of_char c :: nat) in (9 \<le> n \<and> n \<le> 13) \<or> (28 \<le> n \<and> n \<le> 32))"

definition is_digit :: "char \<Rightarrow> bool" where
  "is_digit c = (let n = (of_char c :: nat) in 48 \<le> n \<and> n \<le> 57)"

definition digit_val :: "char \<Rightarrow> int" where
  "digit_val c = of_char c - 48"

definition strip :: "string \<Rightarrow> string" where
  "strip s = rev (dropWhile is_space (rev (dropWhile is_space s)))"

fun digits_from :: "int \<Rightarrow> string \<Rightarrow> int option" where
  "digits_from acc [] = Some acc"
| "digits_from acc [c] = (if is_digit c then Some (acc * 10 + digit_val c) else None)"
| "digits_from acc (c # d # ds) =
     (if is_digit c then digits_from (acc * 10 + digit_val c) (d # ds)
      else if c = CHR ''_'' \<and> is_digit d then digits_from (acc * 10 + digit_val d) ds
      else None)"

definition unsigned_of_str :: "string \<Rightarrow> int option" where
  "unsigned_of_str s =
     (case s of [] \<Rightarrow> None
      | c # cs \<Rightarrow> if is_digit c then digits_from (digit_val c) cs else None)"

definition int_of_str :: "string \<Rightarrow> int option" where
  "int_of_str s =
     (case strip s of
        [] \<Rightarrow> None
      | c # cs \<Rightarrow>
          if c = CHR ''-'' then map_option uminus (unsigned_of_str cs)
          else if c = CHR ''+'' then unsigned_of_str cs
          else unsigned_of_str (c # cs))"

definition py_int :: "string \<Rightarrow> exn + int" where
  "py_int s =
     (case int_of_str s of
        None \<Rightarrow> Inl (ValueError ''invalid literal for int() with base 10'')
      | Some i \<Rightarrow> Inr i)"

text \<open>
  \<^verbatim>\<open>datetime.fromtimestamp(ts)\<close>: the time is rounded to the microsecond (half to
  even), taken to local time, and must lie in the years 1 to 9999. Narrower limits of
  the platform's C library are not modelled.
\<close>

definition round_half_even :: "rat \<Rightarrow> int" where
  "round_half_even r =
     (let f = \<lfloor>r\<rfloor>; d = r - of_int f
      in if d < 1 / 2 then f else if 1 / 2 < d then f + 1 else if even f then f else f + 1)"

definition min_datetime :: int where
  "min_datetime = - 62135596800000000"

definition max_datetime :: int where
  "max_datetime = 253402300799999999"

definition fromtimestamp :: "world \<Rightarrow> rat \<Rightarrow> exn + int" where
  "fromtimestamp w ts =
     (let t = localtime w (round_half_even (ts * 1000000))
      in if min_datetime \<le> t \<and> t \<le> max_datetime then Inr t
         else Inl (ValueError ''year is out of range''))"

text \<open>\<^verbatim>\<open>(a - b).days\<close> of two datetimes: the quotient rounds down.\<close>

definition days_between :: "int \<Rightarrow> int \<Rightarrow> int" where
  "days_between a b = (a - b) div 86400000000"

definition expired :: "json \<Rightarrow> json" where
  "expired days = JObj [(''expired'', JBool True), (''expired_days'', days)]"

text \<open>The inner \<^verbatim>\<open>try\<close> of the branch without an active entry, on \<^verbatim>\<open>entries[0]\<close>.\<close>

definition expired_days :: "world \<Rightarrow> xml \<Rightarrow> exn + int" where
  "expired_days w e0 =
     and_then (py_int (findtext e0 ''coverNoteEndDate'' ''0'')) (\<lambda>ms.
     and_then (fromtimestamp w (of_int ms / 1000)) (\<lambda>end_date.
     let days = days_between (now w) end_date in
     and_then (log_alert w) (\<lambda>_. Inr days)))"

text \<open>The bare \<^verbatim>\<open>except:\<close> turns every failure of that block into unknown days.\<close>

definition expired_branch :: "world \<Rightarrow> xml \<Rightarrow> json" where
  "expired_branch w e0 =
     (case expired_days w e0 of Inl e \<Rightarrow> expired JNull | Inr days \<Rightarrow> expired (JInt days))"

definition active_branch :: "world \<Rightarrow> xml \<Rightarrow> exn + json" where
  "active_branch w a =
     and_then (py_int (findtext a ''coverNoteEndDate'' ''0'')) (\<lambda>ms.
     and_then (fromtimestamp w (of_int ms / 1000)) (\<lambda>end_date.
     let days_left = days_between end_date (now w) in
     Inr (JObj [(''active'', JBool True), (''valid_till'', JStr (strftime_ymd w end_date)),
                (''remaining_days'', JInt days_left)])))"

definition is_active :: "xml \<Rightarrow> bool" where
  "is_active e = (upper (findtext e ''statusTitle'' []) = ''ACTIVE'')"

text \<open>
  \<^verbatim>\<open>if not active\<close> tests an element or \<^verbatim>\<open>None\<close>; an element is false when it has no
  children.
\<close>

definition insurance_body :: "world \<Rightarrow> string \<Rightarrow> exn + json" where
  "insurance_body w plate =
     and_then (tira_post w plate) (\<lambda>xml_root.
     case findall_data xml_root of
       [] \<Rightarrow> Inr (expired JNull)
     | e0 # rest \<Rightarrow>
         (case find is_active (e0 # rest) of
            None \<Rightarrow> Inr (expired_branch w e0)
          | Some a \<Rightarrow>
              if elem_children a = [] then Inr (expired_branch w e0)
              else active_branch w a))"

definition get_insurance :: "world \<Rightarrow> string \<Rightarrow> json" where
  "get_insurance w plate = catch_all (insurance_body w plate)"

section \<open>The report\<close>

text \<open>The decimal text of an \<^verbatim>\<open>int\<close> inside an f-string.\<close>

fun str_nat :: "nat \<Rightarrow> string" where
  "str_nat n =
     (if n < 10 then [char_of (48 + n)] else str_nat (n div 10) @ [char_of (48 + n mod 10)])"

declare str_nat.simps [simp del]

definition str_int :: "int \<Rightarrow> string" where
  "str_int i = (if i < 0 then CHR ''-'' # str_nat (nat (- i)) else str_nat (nat i))"

fun py_str :: "world \<Rightarrow> json \<Rightarrow> string" where
  "py_str w (JInt i) = str_int i"
| "py_str w v = py_repr w v"

text \<open>\<^verbatim>\<open>s.upper()\<close> and \<^verbatim>\<open>s.lower()\<close> on a value of the request: only a string has them.\<close>

fun str_upper :: "json \<Rightarrow> exn + string" where
  "str_upper (JStr s) = Inr (upper s)"
| "str_upper _ = Inl (AttributeError ''object has no attribute upper'')"

fun str_lower :: "json \<Rightarrow> exn + string" where
  "str_lower (JStr s) = Inr (lower s)"
| "str_lower _ = Inl (AttributeError ''object has no attribute lower'')"

text \<open>
  Lines 93 to 96 of \<^verbatim>\<open>check\<close>. The argument is \<^verbatim>\<open>request.json\<close>, which raises when
  the body is not JSON.
\<close>

definition parse_request :: "exn + json \<Rightarrow> exn + (string \<times> string \<times> string)" where
  "parse_request req =
     and_then req (\<lambda>body.
     let data = (if truthy body then body else JObj []) in
     and_then (dict_get data ''plate'' (JStr [])) (\<lambda>p.
     and_then (str_upper p) (\<lambda>plate.
     and_then (dict_get data ''lang'' (JStr ''en'')) (\<lambda>l.
     and_then (str_lower l) (\<lambda>lang.
     and_then (dict_get data ''type'' (JStr ''full'')) (\<lambda>t.
     and_then (str_lower t) (\<lambda>detail_type.
     Inr (plate, lang, detail_type))))))))"

text \<open>\<^verbatim>\<open>isinstance(r, dict) and r.get(k)\<close>\<close>

definition has_flag :: "json \<Rightarrow> string \<Rightarrow> bool" where
  "has_flag r k =
     (is_dict r \<and> (case dict_get r k JNull of Inl e \<Rightarrow> False | Inr v \<Rightarrow> truthy v))"

text \<open>\<^verbatim>\<open>v <= 10\<close>\<close>

fun le_10 :: "json \<Rightarrow> exn + bool" where
  "le_10 (JInt i) = Inr (i \<le> 10)"
| "le_10 (JFloat r) = Inr (r \<le> 10)"
| "le_10 (JBool b) = Inr True"
| "le_10 _ = Inl (TypeError ''comparison not supported between these instances'')"

definition red_circle :: string where
  "red_circle = [CHR 0xF0, CHR 0x9F, CHR 0x94, CHR 0xB4]"

definition p_button :: string where
  "p_button = [CHR 0xF0, CHR 0x9F, CHR 0x85, CHR 0xBF, CHR 0xEF, CHR 0xB8, CHR 0x8F]"

definition warning_sign :: string where
  "warning_sign = [CHR 0xE2, CHR 0x9A, CHR 0xA0, CHR 0xEF, CHR 0xB8, CHR 0x8F]"

definition hourglass :: string where
  "hourglass = [CHR 0xE2, CHR 0x8F, CHR 0xB3]"

text \<open>The wording of the four notifications, chosen by \<^verbatim>\<open>lang == "en"\<close>.\<close>

definition traffic_msg :: "string \<Rightarrow> string" where
  "traffic_msg lang =
     (if lang = ''en'' then red_circle @ '' Traffic Violation''
      else red_circle @ '' Kuna makosa ya barabarani'')"

definition parking_msg :: "string \<Rightarrow> string" where
  "parking_msg lang =
     (if lang = ''en'' then p_button @ '' Unpaid Parking''
      else p_button @ '' Kuna maegesho hayajalipwa'')"

definition expired_msg :: "string \<Rightarrow> string" where
  "expired_msg lang =
     (if lang = ''en'' then warning_sign @ '' Insurance Expired''
      else warning_sign @ '' Bima imekwisha muda wake'')"

definition expiring_msg :: "string \<Rightarrow> string \<Rightarrow> string" where
  "expiring_msg lang days =
     (if lang = ''en'' then hourglass @ '' Insurance expiring soon ('' @ days @ '' days left)''
      else hourglass @ '' Bima inakaribia kuisha ('' @ days @ '' siku)'')"

text \<open>Lines 107 to 119 of \<^verbatim>\<open>check\<close>.\<close>

definition notifications :: "world \<Rightarrow> string \<Rightarrow> json \<Rightarrow> json \<Rightarrow> json \<Rightarrow> exn + string list" where
  "notifications w lang traffic parking insurance =
     (let n1 = (if has_flag traffic ''found'' then [traffic_msg lang] else []);
          n2 = (if has_flag parking ''found'' then [parking_msg lang] else []);
          n3 = (if has_flag insurance ''expired'' then [expired_msg lang] else [])
      in and_then
           (if has_flag insurance ''active'' then
              and_then (subscript insurance ''remaining_days'') (\<lambda>rd.
              and_then (le_10 rd) (\<lambda>soon.
              Inr (if soon then [expiring_msg lang (py_str w rd)] else [])))
            else Inr [])
           (\<lambda>n4. Inr (n1 @ n2 @ n3 @ n4)))"

text \<open>\<^verbatim>\<open>d[k] = v\<close> on the bindings of a dict.\<close>

definition dict_set :: "(string \<times> json) list \<Rightarrow> string \<Rightarrow> json \<Rightarrow> (string \<times> json) list" where
  "dict_set kvs k v =
     (if k \<in> fst ` set kvs then map (\<lambda>kv. if fst kv = k then (k, v) else kv) kvs
      else kvs @ [(k, v)])"

record response =
  status_code :: nat
  body :: json

text \<open>Lines 98 to 127 of \<^verbatim>\<open>check\<close>, for a request that was read.\<close>

definition build_report :: "world \<Rightarrow> string \<Rightarrow> string \<Rightarrow> string \<Rightarrow> exn + json" where
  "build_report w plate lang detail_type =
     (let traffic = get_traffic_penalties w plate;
          parking = get_parking_fees w plate;
          insurance = get_insurance w plate;
          result = [(''plate'', JStr plate), (''traffic_penalties'', traffic),
                    (''parking_fees'', parking), (''insurance'', insurance)]
      in and_then (notifications w lang traffic parking insurance) (\<lambda>ns.
         let notes = JArr (map JStr ns) in
         Inr (if detail_type = ''summary''
              then JObj [(''plate'', JStr plate), (''notifications'', notes)]
              else JObj (dict_set result ''notifications'' notes))))"

definition check :: "world \<Rightarrow> exn + json \<Rightarrow> response" where
  "check w req =
     (case and_then (parse_request req)
             (\<lambda>(plate, lang, detail_type). build_report w plate lang detail_type) of
        Inl e \<Rightarrow> \<lparr>status_code = 500, body = error_result e\<rparr>
      | Inr result \<Rightarrow> \<lparr>status_code = 200, body = result\<rparr>)"

section \<open>The specification's totals\<close>





section \<open>The specification's notifications\<close>

text \<open>
  The four notifications and their two wordings, and the conditions under which the
  specification derives each, in its fixed order.
\<close>

datatype notification_kind =
    Violation
  | UnpaidParking
  | InsuranceExpired
  | ExpiringSoon string

fun wording_en :: "notification_kind \<Rightarrow> string" where
  "wording_en Violation = red_circle @ '' Traffic Violation''"
| "wording_en UnpaidParking = p_button @ '' Unpaid Parking''"
| "wording_en InsuranceExpired = warning_sign @ '' Insurance Expired''"
| "wording_en (ExpiringSoon n) = hourglass @ '' Insurance expiring soon ('' @ n @ '' days left)''"

fun wording_sw :: "notification_kind \<Rightarrow> string" where
  "wording_sw Violation = red_circle @ '' Kuna makosa ya barabarani''"
| "wording_sw UnpaidParking = p_button @ '' Kuna maegesho hayajalipwa''"
| "wording_sw InsuranceExpired = warning_sign @ '' Bima imekwisha muda wake''"
| "wording_sw (ExpiringSoon n) = hourglass @ '' Bima inakaribia kuisha ('' @ n @ '' siku)''"

text \<open>The remaining days of a result that says the cover is active.\<close>

definition remaining_days_of :: "json \<Rightarrow> int option" where
  "remaining_days_of r =
     (if has_flag r ''active'' then
        (case subscript r ''remaining_days'' of Inr (JInt n) \<Rightarrow> Some n | _ \<Rightarrow> None)
      else None)"

definition spec_kinds :: "json \<Rightarrow> json \<Rightarrow> json \<Rightarrow> notification_kind list" where
  "spec_kinds traffic parking insurance =
     (if has_flag traffic ''found'' then [Violation] else []) @
     (if has_flag parking ''found'' then [UnpaidParking] else []) @
     (if has_flag insurance ''expired'' then [InsuranceExpired] else []) @
     (case remaining_days_of insurance of
        None \<Rightarrow> []
      | Some n \<Rightarrow> if n \<le> 10 then [ExpiringSoon (str_int n)] else [])"

section \<open>Concrete inputs\<close>

text \<open>
  A world in which no service reports anything, at local time 2025-11-04T00:00:00 with
  the local clock on UTC; the other inputs below change one service each.
\<close>

text \<open>The calendar date of a naive time, for the clock of the examples.\<close>

definition year_of_era :: "int \<Rightarrow> int" where
  "year_of_era doe = (doe - doe div 1460 + doe div 36524 - doe div 146096) div 365"

definition day_of_year :: "int \<Rightarrow> int \<Rightarrow> int" where
  "day_of_year doe yoe = doe - (365 * yoe + yoe div 4 - yoe div 100)"

definition month_day :: "int \<Rightarrow> int \<Rightarrow> int \<times> int \<times> int" where
  "month_day y doy =
     (if (5 * doy + 2) div 153 < 10
      then (y, (5 * doy + 2) div 153 + 3, doy - (153 * ((5 * doy + 2) div 153) + 2) div 5 + 1)
      else (y + 1, (5 * doy + 2) div 153 - 9,
            doy - (153 * ((5 * doy + 2) div 153) + 2) div 5 + 1))"

definition civil_of_era :: "int \<Rightarrow> int \<Rightarrow> int \<times> int \<times> int" where
  "civil_of_era era doe =
     month_day (year_of_era doe + era * 400) (day_of_year doe (year_of_era doe))"

definition civil_from_days :: "int \<Rightarrow> int \<times> int \<times> int" where
  "civil_from_days z = civil_of_era ((z + 719468) div 146097) ((z + 719468) mod 146097)"

definition pad :: "nat \<Rightarrow> string \<Rightarrow> string" where
  "pad n s = replicate (n - length s) (CHR ''0'') @ s"

definition iso_date :: "int \<Rightarrow> string" where
  "iso_date t =
     (case civil_from_days (t div 86400000000) of
        (y, m, d) \<Rightarrow> pad 4 (str_int y) @ ''-'' @ pad 2 (str_int m) @ ''-'' @ pad 2 (str_int d))"

definition quiet_world :: world where
  "quiet_world =
     \<lparr>tms_post = (\<lambda>plate. Inr (JObj [(''status'', JStr ''success''),
                                      (''pending_transactions'', JArr [])])),
      gepg_post = (\<lambda>plate. Inr (JArr [JObj [(''billDetails'', JArr [])]])),
      tira_post = (\<lambda>plate. Inr (Element ''response'' None [])),
      float_of_str = (\<lambda>s. None),
      now = 1762214400000000,
      localtime = (\<lambda>t. t),
      strftime_ymd = iso_date,
      py_repr = (\<lambda>v. []),
      log_writable = True\<rparr>"

definition ticket :: "json \<Rightarrow> json \<Rightarrow> json" where
  "ticket c p = JObj [(''charge'', c), (''penalty'', p)]"




definition entry :: "string \<Rightarrow> string option \<Rightarrow> xml" where
  "entry status_title end_date =
     Element ''data'' None
       (Element ''statusTitle'' (Some status_title) [] #
        (case end_date of None \<Rightarrow> []
         | Some ms \<Rightarrow> [Element ''coverNoteEndDate'' (Some ms) []]))"

definition cover_world :: "xml list \<Rightarrow> world" where
  "cover_world entries =
     quiet_world\<lparr>tira_post := (\<lambda>plate. Inr (Element ''response'' None entries))\<rparr>"

text \<open>
  The parking service times out while the traffic service reports one ticket and the
  insurance service an active cover that ends 20 days after now.
\<close>

definition outage_world :: world where
  "outage_world =
     (cover_world [entry ''ACTIVE'' (Some ''1763942400000'')])
       \<lparr>tms_post := (\<lambda>plate. Inr (JObj [(''status'', JStr ''success''),
                          (''pending_transactions'', JArr [ticket (JInt 30000) (JInt 0)])])),
        gepg_post := (\<lambda>plate. Inl (UpstreamError ''Read timed out''))\<rparr>"

section \<open>Sequencing and error results\<close>

lemma and_then_Inr_iff: "and_then m f = Inr y \<longleftrightarrow> (\<exists>x. m = Inr x \<and> f x = Inr y)"
  by (cases m) (simp_all add: and_then_def)

lemma and_then_Inl [simp]: "and_then (Inl e) f = Inl e"
  by (simp add: and_then_def)

lemma and_then_Inr [simp]: "and_then (Inr x) f = f x"
  by (simp add: and_then_def)

lemma has_flag_error_result [simp]:
  "has_flag (error_result e) k = (k = ''error'' \<and> str_exn e \<noteq> [])"
  by (auto simp: has_flag_def error_result_def)

lemma has_flag_not_found [simp]: "has_flag not_found k = False"
  by (simp add: has_flag_def not_found_def)

section \<open>The traffic total\<close>



lemma ticket_amount_str [simp]:
  "ticket_amount w (JStr s) = Inl (AttributeError ''object has no attribute get'')"
  by (simp add: ticket_amount_def)




section \<open>The parking total\<close>





section \<open>The insurance state\<close>

lemma round_half_even_of_int [simp]: "round_half_even (of_int k) = k"
  by (simp add: round_half_even_def)

text \<open>Milliseconds divided by 1000 are a whole number of microseconds.\<close>

lemma ms_to_us: "round_half_even (of_int ms / 1000 * 1000000) = ms * 1000"
proof -
  have "(of_int ms / 1000 * 1000000 :: rat) = of_int (ms * 1000)" by simp
  then show ?thesis by (simp only: round_half_even_of_int)
qed

lemma fromtimestamp_ms:
  "fromtimestamp w (of_int ms / 1000) =
     (if min_datetime \<le> localtime w (ms * 1000) \<and> localtime w (ms * 1000) \<le> max_datetime
      then Inr (localtime w (ms * 1000)) else Inl (ValueError ''year is out of range''))"
  unfolding fromtimestamp_def ms_to_us by (simp add: Let_def)

text \<open>
  The active entry has a \<^verbatim>\<open>statusTitle\<close> child, so the test \<^verbatim>\<open>if not active\<close> on it
  never sends it to the branch for expired cover.
\<close>

lemma find_active_children: "find is_active es = Some a \<Longrightarrow> elem_children a \<noteq> []"
proof -
  assume "find is_active es = Some a"
  then have "is_active a" by (auto simp: find_Some_iff)
  then show ?thesis
    by (auto simp: is_active_def findtext_def upper_def)
qed

lemma insurance_no_entries:
  assumes "tira_post w plate = Inr x" "findall_data x = []"
  shows "get_insurance w plate = expired JNull"
  using assms by (simp add: get_insurance_def insurance_body_def catch_all_def)

lemma insurance_no_active:
  assumes "tira_post w plate = Inr x" "findall_data x = e0 # rest"
    "find is_active (e0 # rest) = None"
  shows "get_insurance w plate = expired_branch w e0"
  using assms by (simp add: get_insurance_def insurance_body_def catch_all_def)

lemma insurance_active:
  assumes "tira_post w plate = Inr x" "findall_data x = e0 # rest"
    "find is_active (e0 # rest) = Some a"
  shows "get_insurance w plate = catch_all (active_branch w a)"
  using assms find_active_children [OF assms(3)]
  by (simp add: get_insurance_def insurance_body_def)

lemma active_branch_cases:
  "(\<exists>e. active_branch w a = Inl e) \<or>
   (\<exists>vt n. active_branch w a =
      Inr (JObj [(''active'', JBool True), (''valid_till'', JStr vt),
                 (''remaining_days'', JInt n)]))"
  by (cases "py_int (findtext a ''coverNoteEndDate'' ''0'')";
      cases "fromtimestamp w
               (of_int (projr (py_int (findtext a ''coverNoteEndDate'' ''0''))) / 1000)")
     (auto simp: active_branch_def Let_def)

lemma expired_branch_cases:
  "expired_branch w e0 = expired JNull \<or> (\<exists>n. expired_branch w e0 = expired (JInt n))"
  by (cases "expired_days w e0") (auto simp: expired_branch_def)

text \<open>The four shapes that the insurance lookup returns.\<close>

lemma get_insurance_cases:
  "(\<exists>e. get_insurance w plate = error_result e)
   \<or> get_insurance w plate = expired JNull
   \<or> (\<exists>n. get_insurance w plate = expired (JInt n))
   \<or> (\<exists>vt n. get_insurance w plate =
        JObj [(''active'', JBool True), (''valid_till'', JStr vt),
              (''remaining_days'', JInt n)])"
proof (cases "tira_post w plate")
  case (Inl e)
  then have "get_insurance w plate = error_result e"
    by (simp add: get_insurance_def insurance_body_def catch_all_def)
  then show ?thesis by blast
next
  case (Inr x)
  show ?thesis
  proof (cases "findall_data x")
    case Nil
    with Inr show ?thesis by (simp add: insurance_no_entries)
  next
    case (Cons e0 rest)
    show ?thesis
    proof (cases "find is_active (e0 # rest)")
      case None
      with Inr Cons expired_branch_cases [of w e0] show ?thesis
        by (auto simp: insurance_no_active)
    next
      case (Some a)
      with Inr Cons active_branch_cases [of w a] show ?thesis
        by (auto simp: insurance_active catch_all_def)
    qed
  qed
qed

section \<open>Notifications and the expired branch\<close>

lemma has_flag_expired [simp]:
  "has_flag (expired d) ''expired''" "\<not> has_flag (expired d) ''active''"
  by (simp_all add: has_flag_def expired_def)

lemma notifications_expired:
  "has_flag ins ''expired'' \<Longrightarrow> notifications w lang t p ins = Inr ns \<Longrightarrow>
     expired_msg lang \<in> set ns"
  by (auto simp: notifications_def Let_def and_then_Inr_iff split: if_splits)

lemma notifications_not_active:
  "\<not> has_flag ins ''active'' \<Longrightarrow>
   notifications w lang t p ins =
     Inr ((if has_flag t ''found'' then [traffic_msg lang] else []) @
          (if has_flag p ''found'' then [parking_msg lang] else []) @
          (if has_flag ins ''expired'' then [expired_msg lang] else []))"
  by (simp add: notifications_def Let_def)


lemma py_int_Some: "int_of_str s = Some i \<Longrightarrow> py_int s = Inr i"
  by (simp add: py_int_def)





section \<open>The report and the example inputs\<close>

lemma has_flag_active_dict [simp]:
  "has_flag (JObj [(''active'', JBool True), (''valid_till'', vt), (''remaining_days'', rd)]) ''active''"
  "\<not> has_flag (JObj [(''active'', JBool True), (''valid_till'', vt), (''remaining_days'', rd)]) ''expired''"
  by (simp_all add: has_flag_def)

lemma notifications_active:
  "notifications w lang t p
     (JObj [(''active'', JBool True), (''valid_till'', vt), (''remaining_days'', JInt n)]) =
     Inr ((if has_flag t ''found'' then [traffic_msg lang] else []) @
          (if has_flag p ''found'' then [parking_msg lang] else []) @
          (if n \<le> 10 then [expiring_msg lang (str_int n)] else []))"
  by (simp add: notifications_def Let_def)

lemma expiring_msg_distinct [simp]:
  "expiring_msg lang s \<noteq> traffic_msg lang'"
  "expiring_msg lang s \<noteq> parking_msg lang'"
  "expiring_msg lang s \<noteq> expired_msg lang'"
  by (simp_all add: expiring_msg_def traffic_msg_def parking_msg_def expired_msg_def
      hourglass_def red_circle_def p_button_def warning_sign_def)

text \<open>The notifications of a report never fail on what the insurance lookup returns.\<close>

lemma notifications_get_insurance:
  "notifications w lang t p (get_insurance w plate) =
     Inr ((if has_flag t ''found'' then [traffic_msg lang] else []) @
          (if has_flag p ''found'' then [parking_msg lang] else []) @
          (if has_flag (get_insurance w plate) ''expired'' then [expired_msg lang] else []) @
          (case remaining_days_of (get_insurance w plate) of
             None \<Rightarrow> []
           | Some n \<Rightarrow> if n \<le> 10 then [expiring_msg lang (str_int n)] else []))"
  using get_insurance_cases [of w plate]
  by (auto simp: notifications_not_active notifications_active remaining_days_of_def)


lemma msg_wording:
  "traffic_msg lang = (if lang = ''en'' then wording_en else wording_sw) Violation"
  "parking_msg lang = (if lang = ''en'' then wording_en else wording_sw) UnpaidParking"
  "expired_msg lang = (if lang = ''en'' then wording_en else wording_sw) InsuranceExpired"
  "expiring_msg lang n = (if lang = ''en'' then wording_en else wording_sw) (ExpiringSoon n)"
  by (simp_all add: traffic_msg_def parking_msg_def expired_msg_def expiring_msg_def)

lemma notifications_spec_kinds:
  "notifications w lang t p (get_insurance w plate) =
     Inr (map (if lang = ''en'' then wording_en else wording_sw)
            (spec_kinds t p (get_insurance w plate)))"
  unfolding notifications_get_insurance spec_kinds_def
  by (simp add: msg_wording split: option.split)

lemma build_report_eq:
  "build_report w plate lang dt =
     Inr (if dt = ''summary''
          then JObj [(''plate'', JStr plate),
                     (''notifications'', JArr (map JStr
                        (map (if lang = ''en'' then wording_en else wording_sw)
                           (spec_kinds (get_traffic_penalties w plate) (get_parking_fees w plate)
                              (get_insurance w plate)))))]
          else JObj [(''plate'', JStr plate),
                     (''traffic_penalties'', get_traffic_penalties w plate),
                     (''parking_fees'', get_parking_fees w plate),
                     (''insurance'', get_insurance w plate),
                     (''notifications'', JArr (map JStr
                        (map (if lang = ''en'' then wording_en else wording_sw)
                           (spec_kinds (get_traffic_penalties w plate) (get_parking_fees w plate)
                              (get_insurance w plate)))))])"
  by (simp add: build_report_def Let_def notifications_spec_kinds dict_set_def)

lemma check_parsed:
  "parse_request req = Inr (plate, lang, dt) \<Longrightarrow>
     check w req = \<lparr>status_code = 200, body = projr (build_report w plate lang dt)\<rparr>"
  by (simp add: check_def build_report_eq)

lemma active_branch_parsed:
  assumes "int_of_str (findtext a ''coverNoteEndDate'' ''0'') = Some ms"
    "min_datetime \<le> localtime w (ms * 1000)" "localtime w (ms * 1000) \<le> max_datetime"
  shows "active_branch w a =
     Inr (JObj [(''active'', JBool True),
                (''valid_till'', JStr (strftime_ymd w (localtime w (ms * 1000)))),
                (''remaining_days'', JInt (days_between (localtime w (ms * 1000)) (now w)))])"
  using assms by (simp add: active_branch_def py_int_Some fromtimestamp_ms Let_def)

lemma cover_world_simps [simp]:
  "tira_post (cover_world es) p = Inr (Element ''response'' None es)"
  "localtime (cover_world es) t = t"
  "now (cover_world es) = 1762214400000000"
  "strftime_ymd (cover_world es) = iso_date"
  "log_writable (cover_world es)"
  by (simp_all add: cover_world_def quiet_world_def)

lemma iso_date_examples:
  "iso_date 1762646400000000 = ''2025-11-09''"
  "iso_date 1763942400000000 = ''2025-11-24''"
  by code_simp+

lemma findall_single: "findall_data (Element r x [entry st e]) = [entry st e]"
  by (cases e) (simp_all add: findall_data_def entry_def)

lemma is_active_entry: "is_active (entry ''ACTIVE'' e)"
  by (simp add: is_active_def entry_def findtext_def upper_def upper_char_def)

lemma findtext_entry: "findtext (entry st (Some s)) ''coverNoteEndDate'' d = s"
  by (simp add: findtext_def entry_def)

lemma get_insurance_active_entry:
  assumes "int_of_str s = Some ms" "min_datetime \<le> ms * 1000" "ms * 1000 \<le> max_datetime"
  shows "get_insurance (cover_world [entry ''ACTIVE'' (Some s)]) plate =
     JObj [(''active'', JBool True), (''valid_till'', JStr (iso_date (ms * 1000))),
           (''remaining_days'', JInt ((ms * 1000 - 1762214400000000) div 86400000000))]"
proof -
  let ?e = "entry ''ACTIVE'' (Some s)"
  have "find is_active (?e # []) = Some ?e"
    by (simp add: is_active_entry)
  from insurance_active [OF cover_world_simps(1) findall_single this]
  have "get_insurance (cover_world [?e]) plate = catch_all (active_branch (cover_world [?e]) ?e)" .
  also have "active_branch (cover_world [?e]) ?e =
     Inr (JObj [(''active'', JBool True), (''valid_till'', JStr (iso_date (ms * 1000))),
           (''remaining_days'', JInt ((ms * 1000 - 1762214400000000) div 86400000000))])"
    using active_branch_parsed [of ?e ms "cover_world [?e]"] assms
    by (simp add: findtext_entry days_between_def)
  finally show ?thesis by (simp add: catch_all_def)
qed


lemma get_insurance_active_20:
  "get_insurance (cover_world [entry ''ACTIVE'' (Some ''1763942400000'')]) plate
     = JObj [(''active'', JBool True), (''valid_till'', JStr ''2025-11-24''),
             (''remaining_days'', JInt 20)]"
proof -
  have "int_of_str ''1763942400000'' = Some 1763942400000" by code_simp
  from get_insurance_active_entry [OF this] show ?thesis
    by (simp add: min_datetime_def max_datetime_def iso_date_examples)
qed

section \<open>What each lookup depends on\<close>

lemma sum_tickets_cong:
  "float_of_str w' = float_of_str w \<Longrightarrow> sum_tickets w' ts acc = sum_tickets w ts acc"
  by (induction ts arbitrary: acc) (simp_all add: ticket_amount_def)

lemma get_traffic_penalties_cong:
  assumes "tms_post w' = tms_post w" "float_of_str w' = float_of_str w"
    "log_writable w' = log_writable w"
  shows "get_traffic_penalties w' plate = get_traffic_penalties w plate"
  using assms
  by (simp add: get_traffic_penalties_def traffic_body_def log_alert_def
      sum_tickets_cong [of w' w] cong: if_cong)

lemma bill_amounts_cong:
  "float_of_str w' = float_of_str w \<Longrightarrow> bill_amounts w' bs = bill_amounts w bs"
  by (induction bs) simp_all

lemma get_parking_fees_cong:
  assumes "gepg_post w' = gepg_post w" "float_of_str w' = float_of_str w"
    "log_writable w' = log_writable w"
  shows "get_parking_fees w' plate = get_parking_fees w plate"
  using assms
  by (simp add: get_parking_fees_def parking_body_def log_alert_def
      bill_amounts_cong [of w' w] cong: if_cong)

lemma get_insurance_cong:
  assumes "tira_post w' = tira_post w" "now w' = now w" "localtime w' = localtime w"
    "strftime_ymd w' = strftime_ymd w" "log_writable w' = log_writable w"
  shows "get_insurance w' plate = get_insurance w plate"
  using assms
  by (simp add: get_insurance_def insurance_body_def expired_branch_def expired_days_def
      active_branch_def fromtimestamp_def log_alert_def cong: if_cong list.case_cong option.case_cong)

lemma outage_world_results:
  "get_traffic_penalties outage_world ''T123ABC'' =
     JObj [(''found'', JBool True), (''tickets'', JArr [ticket (JInt 30000) (JInt 0)]),
           (''total'', JInt 30000)]"
  "get_parking_fees outage_world ''T123ABC'' = JObj [(''error'', JStr ''Read timed out'')]"
  "get_insurance outage_world ''T123ABC'' =
     JObj [(''active'', JBool True), (''valid_till'', JStr ''2025-11-24''),
           (''remaining_days'', JInt 20)]"
proof -
  show "get_traffic_penalties outage_world ''T123ABC'' =
     JObj [(''found'', JBool True), (''tickets'', JArr [ticket (JInt 30000) (JInt 0)]),
           (''total'', JInt 30000)]"
    by code_simp
  show "get_parking_fees outage_world ''T123ABC'' = JObj [(''error'', JStr ''Read timed out'')]"
    by code_simp
  have "get_insurance outage_world ''T123ABC'' =
     get_insurance (cover_world [entry ''ACTIVE'' (Some ''1763942400000'')]) ''T123ABC''"
    by (rule get_insurance_cong) (simp_all add: outage_world_def)
  then show "get_insurance outage_world ''T123ABC'' =
     JObj [(''active'', JBool True), (''valid_till'', JStr ''2025-11-24''),
           (''remaining_days'', JInt 20)]"
    by (simp only: get_insurance_active_20)
qed

lemma outage_world_kinds:
  "spec_kinds (get_traffic_penalties outage_world ''T123ABC'')
       (get_parking_fees outage_world ''T123ABC'') (get_insurance outage_world ''T123ABC'')
     = [Violation]"
  unfolding outage_world_results by code_simp

section \<open>Reading the request\<close>

lemma lower_char_idem: "lower_char (lower_char c) = lower_char c"
  by (auto simp: lower_char_def Let_def)

lemma lower_idem [simp]: "lower (lower s) = lower s"
  by (simp add: lower_def lower_char_idem)

lemma map_of_dict_set:
  "map_of (dict_set kvs k v) k' = (if k' = k then Some v else map_of kvs k')"
proof (cases "k \<in> fst ` set kvs")
  case True
  have "map_of (map (\<lambda>kv. if fst kv = k then (k, v) else kv) kvs) k' =
          (if k' = k \<and> k \<in> fst ` set kvs then Some v else map_of kvs k')"
    by (induction kvs) (force simp: image_iff)+
  with True show ?thesis by (simp add: dict_set_def)
next
  case False
  then have "map_of kvs k = None" by (simp add: map_of_eq_None_iff)
  with False show ?thesis
    by (auto simp: dict_set_def map_add_def split: option.splits)
qed

lemma dict_set_not_Nil [simp]: "dict_set kvs k v \<noteq> []"
  by (auto simp: dict_set_def)

text \<open>Reading a request looks at three keys of the body only.\<close>

lemma parse_request_dict:
  "parse_request (Inr (JObj kvs)) =
     and_then (str_upper (case map_of kvs ''plate'' of None \<Rightarrow> JStr [] | Some v \<Rightarrow> v)) (\<lambda>plate.
     and_then (str_lower (case map_of kvs ''lang'' of None \<Rightarrow> JStr ''en'' | Some v \<Rightarrow> v)) (\<lambda>lang.
     and_then (str_lower (case map_of kvs ''type'' of None \<Rightarrow> JStr ''full'' | Some v \<Rightarrow> v)) (\<lambda>detail_type.
     Inr (plate, lang, detail_type))))"
  by (cases kvs) (simp_all add: parse_request_def)

section \<open>The claims\<close>







text \<open>
  C1, as the code has it. When the response parses and has no \<^verbatim>\<open>data\<close> entry, the
  insurance lookup returns \<^verbatim>\<open>{"expired": True, "expired_days": None}\<close>, the value it also
  returns for expired cover of unknown age, and the notification that the insurance has
  expired is derived, whatever the other two sources returned.
\<close>

theorem no_entries_reported_expired:
  assumes "tira_post w plate = Inr x" "findall_data x = []"
  shows "get_insurance w plate = expired JNull
       \<and> (\<exists>ns. notifications w lang t p (get_insurance w plate) = Inr ns
               \<and> expired_msg lang \<in> set ns)"
  using insurance_no_entries [OF assms]
  by (simp add: notifications_not_active)

text \<open>A response with no entry at all.\<close>

theorem no_entries_reported_expired_witness:
  "tira_post quiet_world ''T123ABC'' = Inr (Element ''response'' None [])
   \<and> findall_data (Element ''response'' None []) = []
   \<and> get_insurance quiet_world ''T123ABC'' = expired JNull
   \<and> (\<exists>ns. notifications quiet_world ''en'' not_found not_found
               (get_insurance quiet_world ''T123ABC'') = Inr ns
          \<and> expired_msg ''en'' \<in> set ns)"
proof -
  have a: "tira_post quiet_world ''T123ABC'' = Inr (Element ''response'' None [])"
    by (simp add: quiet_world_def)
  have b: "findall_data (Element ''response'' None []) = []"
    by (simp add: findall_data_def)
  from no_entries_reported_expired [OF a b, of "''en''" not_found not_found] a b
  show ?thesis by auto
qed

text \<open>
  C1 as stated fails: the full report for a response without entries carries the
  expired result and one notification, that the insurance has expired.
\<close>

theorem no_entries_counterexample:
  "check quiet_world (Inr (JObj [(''plate'', JStr ''t123abc'')]))
     = \<lparr>status_code = 200,
        body = JObj [(''plate'', JStr ''T123ABC''),
                     (''traffic_penalties'', not_found),
                     (''parking_fees'', not_found),
                     (''insurance'', JObj [(''expired'', JBool True), (''expired_days'', JNull)]),
                     (''notifications'', JArr [JStr (warning_sign @ '' Insurance Expired'')])]\<rparr>"
  by code_simp










text \<open>
  C3. Each lookup turns a failure of its own into a result that carries the message,
  and its result does not depend on what the other two services answer. For every
  request that could be read, the response has status 200, and in full mode its body
  holds the plate, the three results and the notifications.
\<close>

theorem source_failures_are_isolated:
  assumes "parse_request req = Inr (plate, lang, dt)"
  shows "status_code (check w req) = 200
       \<and> (dt \<noteq> ''summary'' \<longrightarrow>
            (\<exists>ns. body (check w req) =
               JObj [(''plate'', JStr plate),
                     (''traffic_penalties'', get_traffic_penalties w plate),
                     (''parking_fees'', get_parking_fees w plate),
                     (''insurance'', get_insurance w plate),
                     (''notifications'', JArr (map JStr ns))]))
       \<and> (\<forall>e. traffic_body w plate = Inl e \<longrightarrow>
              get_traffic_penalties w plate = JObj [(''error'', JStr (str_exn e))])
       \<and> (\<forall>e. parking_body w plate = Inl e \<longrightarrow>
              get_parking_fees w plate = JObj [(''error'', JStr (str_exn e))])
       \<and> (\<forall>e. insurance_body w plate = Inl e \<longrightarrow>
              get_insurance w plate = JObj [(''error'', JStr (str_exn e))])
       \<and> get_traffic_penalties (w\<lparr>gepg_post := g, tira_post := h\<rparr>) plate
            = get_traffic_penalties w plate
       \<and> get_parking_fees (w\<lparr>tms_post := f, tira_post := h\<rparr>) plate
            = get_parking_fees w plate
       \<and> get_insurance (w\<lparr>tms_post := f, gepg_post := g\<rparr>) plate
            = get_insurance w plate"
proof -
  have "status_code (check w req) = 200"
    using assms by (simp add: check_parsed)
  moreover have "dt \<noteq> ''summary'' \<longrightarrow>
            (\<exists>ns. body (check w req) =
               JObj [(''plate'', JStr plate),
                     (''traffic_penalties'', get_traffic_penalties w plate),
                     (''parking_fees'', get_parking_fees w plate),
                     (''insurance'', get_insurance w plate),
                     (''notifications'', JArr (map JStr ns))])"
  proof
    assume "dt \<noteq> ''summary''"
    with assms have "body (check w req) =
               JObj [(''plate'', JStr plate),
                     (''traffic_penalties'', get_traffic_penalties w plate),
                     (''parking_fees'', get_parking_fees w plate),
                     (''insurance'', get_insurance w plate),
                     (''notifications'', JArr (map JStr
                        (map (if lang = ''en'' then wording_en else wording_sw)
                           (spec_kinds (get_traffic_penalties w plate) (get_parking_fees w plate)
                              (get_insurance w plate)))))]"
      by (simp add: check_parsed build_report_eq del: map_map)
    then show "\<exists>ns. body (check w req) =
               JObj [(''plate'', JStr plate),
                     (''traffic_penalties'', get_traffic_penalties w plate),
                     (''parking_fees'', get_parking_fees w plate),
                     (''insurance'', get_insurance w plate),
                     (''notifications'', JArr (map JStr ns))]"
      by blast
  qed
  moreover have "\<forall>e. traffic_body w plate = Inl e \<longrightarrow>
              get_traffic_penalties w plate = JObj [(''error'', JStr (str_exn e))]"
    by (simp add: get_traffic_penalties_def catch_all_def error_result_def)
  moreover have "\<forall>e. parking_body w plate = Inl e \<longrightarrow>
              get_parking_fees w plate = JObj [(''error'', JStr (str_exn e))]"
    by (simp add: get_parking_fees_def catch_all_def error_result_def)
  moreover have "\<forall>e. insurance_body w plate = Inl e \<longrightarrow>
              get_insurance w plate = JObj [(''error'', JStr (str_exn e))]"
    by (simp add: get_insurance_def catch_all_def error_result_def)
  moreover have "get_traffic_penalties (w\<lparr>gepg_post := g, tira_post := h\<rparr>) plate
            = get_traffic_penalties w plate"
    by (rule get_traffic_penalties_cong) simp_all
  moreover have "get_parking_fees (w\<lparr>tms_post := f, tira_post := h\<rparr>) plate
            = get_parking_fees w plate"
    by (rule get_parking_fees_cong) simp_all
  moreover have "get_insurance (w\<lparr>tms_post := f, gepg_post := g\<rparr>) plate
            = get_insurance w plate"
    by (rule get_insurance_cong) simp_all
  ultimately show ?thesis by blast
qed

text \<open>
  The parking service times out: the report has status 200 and carries the ticket, the
  parking error and the active cover.
\<close>

theorem source_failures_are_isolated_witness:
  "parse_request (Inr (JObj [(''plate'', JStr ''t123abc'')])) = Inr (''T123ABC'', ''en'', ''full'')
   \<and> parking_body outage_world ''T123ABC'' = Inl (UpstreamError ''Read timed out'')
   \<and> status_code (check outage_world (Inr (JObj [(''plate'', JStr ''t123abc'')]))) = 200
   \<and> (\<exists>ns. body (check outage_world (Inr (JObj [(''plate'', JStr ''t123abc'')]))) =
        JObj [(''plate'', JStr ''T123ABC''),
              (''traffic_penalties'',
                 JObj [(''found'', JBool True),
                       (''tickets'', JArr [ticket (JInt 30000) (JInt 0)]),
                       (''total'', JInt 30000)]),
              (''parking_fees'', JObj [(''error'', JStr ''Read timed out'')]),
              (''insurance'',
                 JObj [(''active'', JBool True), (''valid_till'', JStr ''2025-11-24''),
                       (''remaining_days'', JInt 20)]),
              (''notifications'', JArr (map JStr ns))])"
proof -
  have a: "parse_request (Inr (JObj [(''plate'', JStr ''t123abc'')]))
             = Inr (''T123ABC'', ''en'', ''full'')"
    by code_simp
  have b: "parking_body outage_world ''T123ABC'' = Inl (UpstreamError ''Read timed out'')"
    by code_simp
  have c: "''full'' \<noteq> ''summary''" by simp
  from source_failures_are_isolated [OF a, of outage_world] a b c
  show ?thesis by (simp add: outage_world_results)
qed



text \<open>
  C10. The language and the detail type of a request are lower-cased when the request is
  read: a request answers as the request whose \<^verbatim>\<open>lang\<close> and \<^verbatim>\<open>type\<close> are replaced by
  their lower-case forms.
\<close>

theorem request_fields_lower_cased:
  assumes "map_of kvs ''lang'' = Some (JStr l)" "map_of kvs ''type'' = Some (JStr t)"
  shows "check w (Inr (JObj kvs)) =
         check w (Inr (JObj (dict_set (dict_set kvs ''lang'' (JStr (lower l)))
                                ''type'' (JStr (lower t)))))"
proof -
  have "parse_request (Inr (JObj kvs)) =
        parse_request (Inr (JObj (dict_set (dict_set kvs ''lang'' (JStr (lower l)))
                                ''type'' (JStr (lower t)))))"
    unfolding parse_request_dict using assms by (simp add: map_of_dict_set)
  then show ?thesis by (simp add: check_def)
qed

text \<open>
  The language \<^verbatim>\<open>EN\<close> gives the English wording and the type \<^verbatim>\<open>SUMMARY\<close> the summary.
\<close>

theorem request_fields_lower_cased_witness:
  "check outage_world (Inr (JObj [(''plate'', JStr ''t123abc''), (''lang'', JStr ''EN''),
                                  (''type'', JStr ''SUMMARY'')]))
     = check outage_world (Inr (JObj [(''plate'', JStr ''t123abc''), (''lang'', JStr ''en''),
                                      (''type'', JStr ''summary'')]))
   \<and> check outage_world (Inr (JObj [(''plate'', JStr ''t123abc''), (''lang'', JStr ''EN''),
                                  (''type'', JStr ''SUMMARY'')]))
     = \<lparr>status_code = 200,
        body = JObj [(''plate'', JStr ''T123ABC''),
                     (''notifications'', JArr [JStr (red_circle @ '' Traffic Violation'')])]\<rparr>"
proof -
  let ?kvs = "[(''plate'', JStr ''t123abc''), (''lang'', JStr ''EN''), (''type'', JStr ''SUMMARY'')]"
  have a: "map_of ?kvs ''lang'' = Some (JStr ''EN'')" "map_of ?kvs ''type'' = Some (JStr ''SUMMARY'')"
    by simp_all
  have b: "dict_set (dict_set ?kvs ''lang'' (JStr (lower ''EN''))) ''type'' (JStr (lower ''SUMMARY''))
     = [(''plate'', JStr ''t123abc''), (''lang'', JStr ''en''), (''type'', JStr ''summary'')]"
    by code_simp
  have c: "parse_request (Inr (JObj [(''plate'', JStr ''t123abc''), (''lang'', JStr ''en''),
                                      (''type'', JStr ''summary'')]))
             = Inr (''T123ABC'', ''en'', ''summary'')"
    by code_simp
  have d: "check outage_world (Inr (JObj [(''plate'', JStr ''t123abc''), (''lang'', JStr ''en''),
                                      (''type'', JStr ''summary'')]))
     = \<lparr>status_code = 200,
        body = JObj [(''plate'', JStr ''T123ABC''),
                     (''notifications'', JArr [JStr (red_circle @ '' Traffic Violation'')])]\<rparr>"
    by (simp add: check_parsed [OF c] build_report_eq outage_world_kinds)
  from request_fields_lower_cased [OF a, of outage_world] b d
  show ?thesis by simp
qed

end
